theory Spec2Isabelle
  imports Complex_Main
begin

section \<open>Python values and exceptions\<close>

text \<open>
  Every exception the modelled Python code can raise is a value of \<open>py_error\<close>; a function
  that may raise returns \<open>py_error + 'a\<close>, with \<open>Inl\<close> for the exception.
  Texts are strings of 8-bit characters (code points below 256).
\<close>

datatype py_error =
    KeyError | ValueError | TypeError | IndexError | AttributeError
  | UnicodeDecodeError | UnicodeEncodeError | OverflowError | DoesNotExist

definition digit_char :: "nat \<Rightarrow> char" where
  "digit_char d = ''0123456789'' ! d"

definition decimal_digits :: "char set" where
  "decimal_digits = set ''0123456789''"

fun str_nat :: "nat \<Rightarrow> string" where
  "str_nat n = (if n < 10 then [digit_char n] else str_nat (n div 10) @ [digit_char (n mod 10)])"

declare str_nat.simps [simp del]

definition str_int :: "int \<Rightarrow> string" where
  "str_int i = (if i < 0 then CHR ''-'' # str_nat (nat (- i)) else str_nat (nat i))"

fun join :: "string \<Rightarrow> string list \<Rightarrow> string" where
  "join sep [] = []"
| "join sep [x] = x"
| "join sep (x # y # ys) = x @ sep @ join sep (y # ys)"

section \<open>Table formatter: \<open>dict_to_table\<close> (api/views/slack_helpers.py)\<close>

datatype atom = ANone | AStr string | AInt int

datatype tvalue = Atom atom | VList "atom list"

fun str_atom :: "atom \<Rightarrow> string" where
  "str_atom ANone = ''None''"
| "str_atom (AStr s) = s"
| "str_atom (AInt i) = str_int i"

type_synonym table = "(string \<times> tvalue) list"

definition ljust :: "nat \<Rightarrow> string \<Rightarrow> string" where
  "ljust w s = s @ replicate (w - length s) CHR '' ''"

text \<open>
  \<open>formatting.format(*args)\<close> for the format string built by the loop over the titles:
  \<open>n\<close> fields \<open>{:<width}\<close> separated by \<open>" | "\<close>. A negative width gives the format
  specification a sign, which \<open>str.format\<close> refuses for strings; fewer arguments than
  fields is an IndexError; arguments beyond the fields are ignored.
\<close>

definition format_row :: "int \<Rightarrow> nat \<Rightarrow> string list \<Rightarrow> py_error + string" where
  "format_row width n args =
     (if width < 0 then Inl ValueError
      else if length args < n then Inl IndexError
      else Inr (join '' | '' (map (ljust (nat width)) (take n args))))"

fun cell_text :: "tvalue \<Rightarrow> string" where
  "cell_text (VList vs) = join '', '' (map str_atom vs)"
| "cell_text (Atom a) = str_atom a"

fun table_rows :: "int \<Rightarrow> nat \<Rightarrow> table \<Rightarrow> py_error + string list" where
  "table_rows width n [] = Inr []"
| "table_rows width n ((k, v) # kvs) =
     (case format_row width n [k, cell_text v] of
        Inl e \<Rightarrow> Inl e
      | Inr line \<Rightarrow>
          (case table_rows width n kvs of Inl e \<Rightarrow> Inl e | Inr ls \<Rightarrow> Inr (line # ls)))"

definition default_width :: "table \<Rightarrow> py_error + int" where
  "default_width dictionary =
     (if dictionary = [] then Inl ValueError
      else Inr (int (fold max (map (length \<circ> fst) dictionary) 0) + 2))"

definition dict_to_table :: "table \<Rightarrow> string list option \<Rightarrow> int option \<Rightarrow> py_error + string list" where
  "dict_to_table dictionary titles width =
     (let titles' = (case titles of None \<Rightarrow> [''Key'', ''Value'']
                     | Some ts \<Rightarrow> if ts = [] then [''Key'', ''Value''] else ts);
          w = (case width of None \<Rightarrow> default_width dictionary
               | Some n \<Rightarrow> if n = 0 then default_width dictionary else Inr n)
      in case w of
           Inl e \<Rightarrow> Inl e
         | Inr width' \<Rightarrow>
             (case format_row width' (length titles') titles' of
                Inl e \<Rightarrow> Inl e
              | Inr header \<Rightarrow>
                  (case table_rows width' (length titles') dictionary of
                     Inl e \<Rightarrow> Inl e
                   | Inr rows \<Rightarrow>
                       Inr (header # replicate (nat width' * length titles') CHR ''-'' # rows))))"

section \<open>Python text operations\<close>

text \<open>
  Texts are strings of 8-bit characters, read as the code points 0 to 255 (ASCII and
  Latin-1); texts with code points beyond that range are outside the model. The character
  classes below are those of Python's \<open>str.isspace\<close> and of the \<open>re\<close> module (for \<open>str\<close>
  patterns) on this range.
\<close>

definition whitespace_chars :: string where
  "whitespace_chars = [
     CHR 0x09, CHR 0x0A, CHR 0x0B, CHR 0x0C, CHR 0x0D, CHR 0x1C, CHR 0x1D, CHR 0x1E,
     CHR 0x1F, CHR 0x20, CHR 0x85, CHR 0xA0]"

definition is_space :: "char \<Rightarrow> bool" where
  "is_space c = (c \<in> set whitespace_chars)"

definition ascii_uppercase :: string where
  "ascii_uppercase = ''ABCDEFGHIJKLMNOPQRSTUVWXYZ''"

definition ascii_lowercase :: string where
  "ascii_lowercase = ''abcdefghijklmnopqrstuvwxyz''"

definition latin1_uppercase :: string where
  "latin1_uppercase = [
     CHR 0xC0, CHR 0xC1, CHR 0xC2, CHR 0xC3, CHR 0xC4, CHR 0xC5, CHR 0xC6, CHR 0xC7,
     CHR 0xC8, CHR 0xC9, CHR 0xCA, CHR 0xCB, CHR 0xCC, CHR 0xCD, CHR 0xCE, CHR 0xCF,
     CHR 0xD0, CHR 0xD1, CHR 0xD2, CHR 0xD3, CHR 0xD4, CHR 0xD5, CHR 0xD6, CHR 0xD8,
     CHR 0xD9, CHR 0xDA, CHR 0xDB, CHR 0xDC, CHR 0xDD, CHR 0xDE]"

definition latin1_lowercase :: string where
  "latin1_lowercase = [
     CHR 0xE0, CHR 0xE1, CHR 0xE2, CHR 0xE3, CHR 0xE4, CHR 0xE5, CHR 0xE6, CHR 0xE7,
     CHR 0xE8, CHR 0xE9, CHR 0xEA, CHR 0xEB, CHR 0xEC, CHR 0xED, CHR 0xEE, CHR 0xEF,
     CHR 0xF0, CHR 0xF1, CHR 0xF2, CHR 0xF3, CHR 0xF4, CHR 0xF5, CHR 0xF6, CHR 0xF8,
     CHR 0xF9, CHR 0xFA, CHR 0xFB, CHR 0xFC, CHR 0xFD, CHR 0xFE]"




text \<open>\<open>str.lower\<close>, character by character.\<close>

definition lower_char :: "char \<Rightarrow> char" where
  "lower_char c =
     (case map_of (zip (ascii_uppercase @ latin1_uppercase) (ascii_lowercase @ latin1_lowercase)) c of
        Some l \<Rightarrow> l
      | None \<Rightarrow> c)"

definition lower :: "string \<Rightarrow> string" where
  "lower s = map lower_char s"

text \<open>
  \<open>str.upper\<close>: the sharp s becomes \<open>SS\<close>; the micro sign and the y with diaeresis have
  their capitals outside Latin-1 and are left as they are here.
\<close>

definition upper_char :: "char \<Rightarrow> string" where
  "upper_char c =
     (if c = CHR 0xDF then ''SS''
      else case map_of (zip (ascii_lowercase @ latin1_lowercase) (ascii_uppercase @ latin1_uppercase)) c of
             Some u \<Rightarrow> [u]
           | None \<Rightarrow> [c])"

definition upper :: "string \<Rightarrow> string" where
  "upper s = concat (map upper_char s)"

text \<open>\<open>s.startswith(p)\<close> and \<open>p in s\<close> for strings.\<close>

definition startswith :: "string \<Rightarrow> string \<Rightarrow> bool" where
  "startswith s p = (take (length p) s = p)"

fun contains :: "string \<Rightarrow> string \<Rightarrow> bool" where
  "contains [] p = (p = [])"
| "contains (c # cs) p = (startswith (c # cs) p \<or> contains cs p)"

text \<open>\<open>s.index(c)\<close> for a one-character \<open>c\<close>: \<open>None\<close> stands for the ValueError.\<close>

fun index_of :: "string \<Rightarrow> char \<Rightarrow> nat option" where
  "index_of [] c = None"
| "index_of (x # xs) c = (if x = c then Some 0 else map_option Suc (index_of xs c))"

text \<open>
  \<open>s.split()\<close>: the maximal runs of non-whitespace characters. The first argument is
  the word being read.
\<close>

fun split_words :: "string \<Rightarrow> string \<Rightarrow> string list" where
  "split_words w [] = (if w = [] then [] else [w])"
| "split_words w (c # cs) =
     (if is_space c then (if w = [] then split_words [] cs else w # split_words [] cs)
      else split_words (w @ [c]) cs)"

definition split :: "string \<Rightarrow> string list" where
  "split s = split_words [] s"

text \<open>\<open>s.split(sep)\<close> for a one-character separator: empty fields are kept.\<close>

fun split_fields :: "char \<Rightarrow> string \<Rightarrow> string \<Rightarrow> string list" where
  "split_fields sep w [] = [w]"
| "split_fields sep w (c # cs) =
     (if c = sep then w # split_fields sep [] cs else split_fields sep (w @ [c]) cs)"

definition split_on :: "char \<Rightarrow> string \<Rightarrow> string list" where
  "split_on sep s = split_fields sep [] s"

text \<open>
  \<open>int(s)\<close> for a string: surrounding whitespace is dropped, a sign may come first, and
  the digits may be grouped by single underscores. \<open>None\<close> stands for the ValueError.
\<close>

definition strip :: "string \<Rightarrow> string" where
  "strip s = rev (dropWhile is_space (rev (dropWhile is_space s)))"

definition digit_value :: "char \<Rightarrow> nat option" where
  "digit_value c = index_of ''0123456789'' c"

fun parse_digits :: "string \<Rightarrow> nat \<Rightarrow> bool \<Rightarrow> nat option" where
  "parse_digits [] acc after_digit = (if after_digit then Some acc else None)"
| "parse_digits (c # cs) acc after_digit =
     (case digit_value c of
        Some d \<Rightarrow> parse_digits cs (10 * acc + d) True
      | None \<Rightarrow> if c = CHR ''_'' \<and> after_digit then parse_digits cs acc False else None)"

definition py_int :: "string \<Rightarrow> int option" where
  "py_int s =
     (case strip s of
        [] \<Rightarrow> None
      | c # cs \<Rightarrow>
          if c = CHR ''-'' then map_option (\<lambda>n. - int n) (parse_digits cs 0 False)
          else if c = CHR ''+'' then map_option int (parse_digits cs 0 False)
          else map_option int (parse_digits (c # cs) 0 False))"

section \<open>Markup sanitizer: \<open>clean_links\<close> (api/views/slack_helpers.py)\<close>

subsection \<open>Backtracking regular expressions\<close>

text \<open>
  The fragment of Python's \<open>re\<close> syntax that \<open>SLACK_TEXT_EXTRACTOR\<close> uses: literal
  characters, character classes, sequences, the greedy quantifiers \<open>?\<close>, \<open>+\<close> and \<open>*\<close>,
  and one capturing group.
\<close>

datatype rx =
    Eps
  | Chr char
  | Cls "char \<Rightarrow> bool"
  | Seq rx rx
  | Opt rx
  | Plus rx
  | Star rx
  | Grp rx

text \<open>
  A matcher state is the text still to be read and the text captured by group 1, if any.
  \<open>ms r st\<close> lists the states in which a match of \<open>r\<close> started in \<open>st\<close> can end, in
  the order in which the backtracking search of \<open>re\<close> visits them: a greedy quantifier
  tries one more repetition before it tries to stop. The search takes the first state of
  the list for the whole pattern.
\<close>

type_synonym mstate = "string \<times> string option"

fun rx_weight :: "rx \<Rightarrow> nat" where
  "rx_weight Eps = 1"
| "rx_weight (Chr c) = 1"
| "rx_weight (Cls p) = 1"
| "rx_weight (Seq a b) = rx_weight a + rx_weight b + 1"
| "rx_weight (Opt a) = rx_weight a + 1"
| "rx_weight (Plus a) = rx_weight a + 2"
| "rx_weight (Star a) = rx_weight a + 1"
| "rx_weight (Grp a) = rx_weight a + 1"

function ms :: "rx \<Rightarrow> mstate \<Rightarrow> mstate list" where
  "ms Eps st = [st]"
| "ms (Chr c) (s, g) = (case s of [] \<Rightarrow> [] | x # xs \<Rightarrow> if x = c then [(xs, g)] else [])"
| "ms (Cls p) (s, g) = (case s of [] \<Rightarrow> [] | x # xs \<Rightarrow> if p x then [(xs, g)] else [])"
| "ms (Seq a b) st = concat (map (ms b) (ms a st))"
| "ms (Opt a) st = ms a st @ [st]"
| "ms (Plus a) st = concat (map (ms (Star a)) (ms a st))"
| "ms (Star a) (s, g) =
     concat (map (\<lambda>st'. if length (fst st') < length s then ms (Star a) st' else [])
                 (ms a (s, g)))
     @ [(s, g)]"
| "ms (Grp a) (s, g) =
     map (\<lambda>st'. (fst st', Some (take (length s - length (fst st')) s))) (ms a (s, g))"
  by pat_completeness auto
termination
  by (relation "inv_image (less_than <*lex*> less_than) (\<lambda>(r, st). (rx_weight r, length (fst st)))")
    auto



subsection \<open>The pattern and the sanitizer\<close>








section \<open>Submission records and the state-change endpoint\<close>

record submission =
  sub_id :: int
  removed_from_queue :: bool
  approved :: bool

text \<open>
  Modelled from the spec: the view behind the \<open>submission-remove\<close> PATCH endpoint is not
  among the sources (only its tests, api/tests/submissions/test_submission_remove.py,
  are). The request body carries an optional boolean \<open>removed_from_queue\<close>; an absent
  value means \<open>true\<close>. When the requested state is the current one nothing is written.
  Otherwise one update sets the flag and, when the update is a removal, clears
  \<open>approved\<close>. The call answers with the HTTP status and the stored submission.
\<close>

definition HTTP_200_OK :: nat where
  "HTTP_200_OK = 200"

definition submission_remove :: "submission \<Rightarrow> bool option \<Rightarrow> nat \<times> submission" where
  "submission_remove s body =
     (let requested = (case body of None \<Rightarrow> True | Some b \<Rightarrow> b)
      in if removed_from_queue s = requested then (HTTP_200_OK, s)
         else (HTTP_200_OK,
               s\<lparr>removed_from_queue := requested,
                 approved := (if requested then False else approved s)\<rparr>))"

text \<open>The fixture of the tests: \<open>create_submission(id=3, ...)\<close>, flags false unless given.\<close>

definition create_submission :: "int \<Rightarrow> bool \<Rightarrow> bool \<Rightarrow> submission" where
  "create_submission i removed appr =
     \<lparr>sub_id = i, removed_from_queue = removed, approved = appr\<rparr>"

section \<open>Relative-time formatter (api/slack/commands/info.py)\<close>

subsection \<open>Python floats\<close>

text \<open>
  A Python float is modelled by the rational number it denotes, and every float operation
  by the exact operation followed by rounding to the nearest double (53 significant bits,
  ties to even). Overflow and subnormal numbers are not modelled: the durations formatted
  here are far inside the normal range.
\<close>

definition round_half_even :: "rat \<Rightarrow> int" where
  "round_half_even x =
     (let f = \<lfloor>x\<rfloor>; r = x - of_int f
      in if r < 1 / 2 then f else if 1 / 2 < r then f + 1
         else if even f then f else f + 1)"

definition pow2 :: "int \<Rightarrow> rat" where
  "pow2 e = (if 0 \<le> e then 2 ^ nat e else 1 / 2 ^ nat (- e))"

text \<open>Python's \<open>int.bit_length\<close> for a non-negative integer.\<close>

function bit_length :: "int \<Rightarrow> nat" where
  "bit_length a = (if a \<le> 0 then 0 else Suc (bit_length (a div 2)))"
  by auto
termination
  by (relation "measure nat") auto

declare bit_length.simps [simp del]

text \<open>The exponent \<open>e\<close> with \<open>2^e \<le> x < 2^(e+1)\<close>, for a positive \<open>x\<close>.\<close>

definition ilog2 :: "rat \<Rightarrow> int" where
  "ilog2 x =
     (let q = quotient_of x;
          d = int (bit_length (fst q)) - int (bit_length (snd q))
      in if pow2 d \<le> x then d else d - 1)"

definition fl :: "rat \<Rightarrow> rat" where
  "fl x =
     (if x = 0 then 0
      else let s = ilog2 \<bar>x\<bar> - 52;
               m = round_half_even (\<bar>x\<bar> / pow2 s)
           in sgn x * of_int m * pow2 s)"

definition fdiv :: "rat \<Rightarrow> rat \<Rightarrow> rat" where
  "fdiv a b = fl (a / b)"

text \<open>
  \<open>f"{value:.<d>f}"\<close> for a non-negative float: the exact value rounded to \<open>d\<close> decimals,
  ties to even, printed with the decimal point only when \<open>d > 0\<close>.
\<close>

definition format_fixed :: "nat \<Rightarrow> rat \<Rightarrow> string" where
  "format_fixed d v =
     (let n = nat (round_half_even (v * 10 ^ d));
          ip = n div 10 ^ d;
          fp = str_nat (n mod 10 ^ d)
      in if d = 0 then str_nat ip
         else str_nat ip @ ''.'' @ replicate (d - length fp) CHR ''0'' @ fp)"

subsection \<open>\<open>_relative_duration\<close> and \<open>_format_time\<close>\<close>

text \<open>
  A \<open>timedelta\<close> is its exact length in microseconds; \<open>total_seconds()\<close> divides that
  integer by \<open>10**6\<close>.
\<close>

definition total_seconds :: "int \<Rightarrow> rat" where
  "total_seconds delta = fdiv (of_int delta) (10 ^ 6)"

definition seconds_of :: "int \<Rightarrow> rat" where
  "seconds_of delta = \<bar>total_seconds delta\<bar>"

definition minutes_of :: "int \<Rightarrow> rat" where
  "minutes_of delta = fdiv (seconds_of delta) 60"

definition hours_of :: "int \<Rightarrow> rat" where
  "hours_of delta = fdiv (minutes_of delta) 60"

definition days_of :: "int \<Rightarrow> rat" where
  "days_of delta = fdiv (hours_of delta) 24"

definition weeks_of :: "int \<Rightarrow> rat" where
  "weeks_of delta = fdiv (days_of delta) 7"

definition months_of :: "int \<Rightarrow> rat" where
  "months_of delta = fdiv (days_of delta) 30"

definition years_of :: "int \<Rightarrow> rat" where
  "years_of delta = fdiv (days_of delta) 365"

text \<open>The \<open>if\<close>/\<open>elif\<close> chain under "Determine major time unit".\<close>

definition major_unit :: "int \<Rightarrow> rat \<times> string" where
  "major_unit delta =
     (if years_of delta \<ge> 1 then (years_of delta, ''year'')
      else if months_of delta \<ge> 1 then (months_of delta, ''month'')
      else if weeks_of delta \<ge> 1 then (weeks_of delta, ''week'')
      else if days_of delta \<ge> 1 then (days_of delta, ''day'')
      else if hours_of delta \<ge> 1 then (hours_of delta, ''hour'')
      else if minutes_of delta \<ge> 1 then (minutes_of delta, ''min'')
      else if seconds_of delta > 5 then (seconds_of delta, ''sec'')
      else (fdiv (seconds_of delta) 1000, ''ms''))"

text \<open>
  The order of units as the specification words it: the first unit of this sequence whose
  value is at least 1 is the one displayed.
\<close>

definition spec_unit_order :: "int \<Rightarrow> (string \<times> rat) list" where
  "spec_unit_order delta =
     [(''year'', years_of delta), (''month'', months_of delta), (''week'', weeks_of delta),
      (''day'', days_of delta), (''hour'', hours_of delta), (''min'', minutes_of delta)]"

definition duration_str :: "rat \<times> string \<Rightarrow> string" where
  "duration_str vu =
     (let value = fst vu; unit = snd vu
      in if unit = ''ms'' then format_fixed 0 value @ '' ms''
         else format_fixed 1 value @ '' '' @ (if value \<noteq> 1 then unit @ ''s'' else unit))"

definition relative_duration :: "int \<Rightarrow> string" where
  "relative_duration delta = duration_str (major_unit delta)"

text \<open>
  A \<open>datetime\<close> is its instant in microseconds together with the text of
  \<open>.date().isoformat()\<close>, which the datetime library computes from the calendar fields.
\<close>

record datetime =
  instant :: int
  date_iso :: string

definition format_time :: "datetime \<Rightarrow> datetime option \<Rightarrow> string option" where
  "format_time now time =
     (case time of
        None \<Rightarrow> None
      | Some t \<Rightarrow>
          (let absolute = date_iso t;
               relative = relative_duration (instant now - instant t)
           in if instant now \<ge> instant t
              then Some (absolute @ '' ('' @ relative @ '' ago)'')
              else Some (absolute @ '' (in '' @ relative @ '')'')))"

section \<open>Signature verification: \<open>is_valid_slack_request\<close> (api/views/slack_helpers.py)\<close>

subsection \<open>Bytes and text\<close>

text \<open>
  \<open>bytes.decode()\<close>: strict UTF-8, from byte values to code points; \<open>None\<close> stands for
  the UnicodeDecodeError. Overlong forms, surrogates and values above 0x10FFFF are
  refused.
\<close>

definition continuation :: "nat \<Rightarrow> bool" where
  "continuation b = (0x80 \<le> b \<and> b \<le> 0xBF)"

fun utf8_decode :: "nat list \<Rightarrow> nat list option" where
  "utf8_decode [] = Some []"
| "utf8_decode (b # bs) =
     (if b < 0x80 then map_option ((#) b) (utf8_decode bs)
      else if 0xC2 \<le> b \<and> b \<le> 0xDF then
        (case bs of
           b1 # r \<Rightarrow>
             if continuation b1
             then map_option ((#) ((b - 0xC0) * 64 + (b1 - 0x80))) (utf8_decode r)
             else None
         | _ \<Rightarrow> None)
      else if 0xE0 \<le> b \<and> b \<le> 0xEF then
        (case bs of
           b1 # b2 # r \<Rightarrow>
             (let cp = (b - 0xE0) * 4096 + (b1 - 0x80) * 64 + (b2 - 0x80)
              in if continuation b1 \<and> continuation b2 \<and> 0x800 \<le> cp
                    \<and> \<not> (0xD800 \<le> cp \<and> cp \<le> 0xDFFF)
                 then map_option ((#) cp) (utf8_decode r)
                 else None)
         | _ \<Rightarrow> None)
      else if 0xF0 \<le> b \<and> b \<le> 0xF4 then
        (case bs of
           b1 # b2 # b3 # r \<Rightarrow>
             (let cp = (b - 0xF0) * 262144 + (b1 - 0x80) * 4096 + (b2 - 0x80) * 64 + (b3 - 0x80)
              in if continuation b1 \<and> continuation b2 \<and> continuation b3
                    \<and> 0x10000 \<le> cp \<and> cp \<le> 0x10FFFF
                 then map_option ((#) cp) (utf8_decode r)
                 else None)
         | _ \<Rightarrow> None)
      else None)"

definition decode :: "string \<Rightarrow> nat list option" where
  "decode body = utf8_decode (map of_char body)"

text \<open>
  \<open>bytes(text, "latin-1")\<close>: one byte per code point; \<open>None\<close> stands for the
  UnicodeEncodeError raised at a code point above 255.
\<close>

definition latin1_encode :: "nat list \<Rightarrow> string option" where
  "latin1_encode cps = (if \<forall>cp \<in> set cps. cp < 256 then Some (map char_of cps) else None)"

text \<open>\<open>hexdigest()\<close>: two lower-case hexadecimal digits per byte.\<close>

definition hex_digit :: "nat \<Rightarrow> char" where
  "hex_digit d = ''0123456789abcdef'' ! d"

definition hexlify :: "string \<Rightarrow> string" where
  "hexlify bs = concat (map (\<lambda>c. [hex_digit (of_char c div 16), hex_digit (of_char c mod 16)]) bs)"

text \<open>
  \<open>hmac.compare_digest(a, b)\<close> on two \<open>str\<close> values: a TypeError unless both are ASCII,
  and otherwise their equality (computed in constant time, which the model does not
  observe).
\<close>

definition is_ascii :: "string \<Rightarrow> bool" where
  "is_ascii s = (\<forall>c \<in> set s. (of_char c :: nat) < 128)"

definition compare_digest :: "string \<Rightarrow> string \<Rightarrow> py_error + bool" where
  "compare_digest a b = (if is_ascii a \<and> is_ascii b then Inr (a = b) else Inl TypeError)"

subsection \<open>The request and the clock\<close>

text \<open>
  Header names are matched without regard to case, as Django's \<open>HttpHeaders\<close> does;
  header values are Latin-1 text; the body is a byte string.
\<close>

record http_request =
  req_headers :: "(string \<times> string) list"
  req_body :: string

definition header_get :: "(string \<times> string) list \<Rightarrow> string \<Rightarrow> string option" where
  "header_get hs name = map_of (map (\<lambda>(k, v). (lower k, v)) hs) (lower name)"

text \<open>
  Converting an \<open>int\<close> to a float for the subtraction: the nearest double, and an
  OverflowError when that is beyond the largest double.
\<close>

definition int_to_float :: "int \<Rightarrow> py_error + rat" where
  "int_to_float t = (if 2 ^ 1024 \<le> \<bar>fl (of_int t)\<bar> then Inl OverflowError else Inr (fl (of_int t)))"

text \<open>
  \<open>is_valid_slack_request\<close>. The parameters stand for what the function reads from its
  environment: \<open>hmac_sha256 key msg\<close> is the digest computed by \<open>hmac.new(key, msg,
  hashlib.sha256)\<close>, \<open>secret\<close> is \<open>settings.SLACK_SIGNING_SECRET\<close> (Latin-1 text) and
  \<open>now\<close> is the float that \<open>time.time()\<close> returns.
\<close>

definition is_valid_slack_request ::
  "(string \<Rightarrow> string \<Rightarrow> string) \<Rightarrow> string \<Rightarrow> rat \<Rightarrow> http_request \<Rightarrow> py_error + bool" where
  "is_valid_slack_request hmac_sha256 secret now request =
     (case header_get (req_headers request) ''X-Slack-Signature'' of
        None \<Rightarrow> Inr False
      | Some slack_signature \<Rightarrow>
          (case header_get (req_headers request) ''X-Slack-Request-Timestamp'' of
             None \<Rightarrow> Inl KeyError
           | Some timestamp \<Rightarrow>
               (case py_int timestamp of
                  None \<Rightarrow> Inl ValueError
                | Some t \<Rightarrow>
                    (case int_to_float t of
                       Inl e \<Rightarrow> Inl e
                     | Inr tf \<Rightarrow>
                         if \<bar>fl (now - tf)\<bar> > 60 * 5 then Inr False
                         else
                           (case decode (req_body request) of
                              None \<Rightarrow> Inl UnicodeDecodeError
                            | Some text \<Rightarrow>
                                (case latin1_encode
                                        (map of_char (''v0:'' @ timestamp @ '':'') @ text) of
                                   None \<Rightarrow> Inl UnicodeEncodeError
                                 | Some sig_basestring \<Rightarrow>
                                     compare_digest
                                       (''v0='' @ hexlify (hmac_sha256 secret sig_basestring))
                                       slack_signature))))))"

section \<open>Facts about the float model\<close>

lemma bit_length_upper: "0 \<le> a \<Longrightarrow> a < 2 ^ bit_length a"
proof (induction a rule: bit_length.induct)
  case (1 a)
  show ?case
  proof (cases "a \<le> 0")
    case True
    with "1.prems" show ?thesis by (simp add: bit_length.simps)
  next
    case False
    then have "a div 2 < 2 ^ bit_length (a div 2)" using "1.IH" by simp
    then have "a < 2 * 2 ^ bit_length (a div 2)" by linarith
    with False show ?thesis by (subst bit_length.simps) simp
  qed
qed

lemma bit_length_lower: "0 < a \<Longrightarrow> 2 ^ bit_length a \<le> 2 * a"
proof (induction a rule: bit_length.induct)
  case (1 a)
  from "1.prems" have pos: "\<not> a \<le> 0" by simp
  show ?case
  proof (cases "a = 1")
    case True
    have "bit_length 1 = Suc 0"
      by (subst bit_length.simps) (simp add: bit_length.simps)
    with True show ?thesis by simp
  next
    case False
    with pos have "0 < a div 2" by linarith
    with pos have "2 ^ bit_length (a div 2) \<le> 2 * (a div 2)" using "1.IH" by simp
    then have "2 * 2 ^ bit_length (a div 2) \<le> 2 * a" by linarith
    with pos show ?thesis by (subst bit_length.simps) simp
  qed
qed

lemma pow2_powi: "pow2 e = 2 powi e"
  by (simp add: pow2_def power_int_def inverse_eq_divide power_one_over)

lemma pow2_pos: "0 < pow2 e"
  by (simp add: pow2_powi)

lemma pow2_mono: "a \<le> b \<Longrightarrow> pow2 a \<le> pow2 b"
  by (simp add: pow2_powi power_int_increasing)

lemma pow2_add: "pow2 (a + b) = pow2 a * pow2 b"
  by (simp add: pow2_powi power_int_add)

lemma pow2_diff: "pow2 (a - b) = pow2 a / pow2 b"
  by (simp add: pow2_powi power_int_diff)

lemma pow2_nat: "pow2 (int n) = 2 ^ n"
  by (simp add: pow2_def)

lemma pow2_unique:
  assumes "pow2 a \<le> x" "x < pow2 (a + 1)" "pow2 b \<le> x" "x < pow2 (b + 1)"
  shows "a = b"
proof (rule ccontr)
  assume "a \<noteq> b"
  then consider "a + 1 \<le> b" | "b + 1 \<le> a" by linarith
  then show False
  proof cases
    case 1
    then have "pow2 (a + 1) \<le> pow2 b" by (rule pow2_mono)
    with assms show False by linarith
  next
    case 2
    then have "pow2 (b + 1) \<le> pow2 a" by (rule pow2_mono)
    with assms show False by linarith
  qed
qed

lemma ilog2_bounds:
  assumes "0 < x"
  shows "pow2 (ilog2 x) \<le> x \<and> x < pow2 (ilog2 x + 1)"
proof -
  obtain p q where pq: "quotient_of x = (p, q)" by (cases "quotient_of x")
  then have x: "x = of_int p / of_int q" by (rule quotient_of_div)
  from pq have q: "0 < q" by (rule quotient_of_denom_pos)
  with x assms have p: "0 < p" by (simp add: zero_less_divide_iff)
  define d where "d = int (bit_length p) - int (bit_length q)"
  have pu: "(of_int p :: rat) < 2 ^ bit_length p"
    using bit_length_upper [of p] p by (metis less_imp_le of_int_less_numeral_power_cancel_iff)
  have pl: "(2 :: rat) ^ bit_length p \<le> 2 * of_int p"
    using bit_length_lower [OF p] by (metis of_int_le_iff of_int_mult of_int_numeral of_int_power)
  have qu: "(of_int q :: rat) < 2 ^ bit_length q"
    using bit_length_upper [of q] q by (metis less_imp_le of_int_less_numeral_power_cancel_iff)
  have ql: "(2 :: rat) ^ bit_length q \<le> 2 * of_int q"
    using bit_length_lower [OF q] by (metis of_int_le_iff of_int_mult of_int_numeral of_int_power)
  have qpos: "(0 :: rat) < of_int q" using q by simp
  have ppos: "(0 :: rat) < of_int p" using p by simp
  have one: "pow2 1 = 2" by (simp add: pow2_def)
  have "d + 1 = (int (bit_length p) + 1) - int (bit_length q)" by (simp add: d_def)
  then have d1: "pow2 (d + 1) = 2 * 2 ^ bit_length p / 2 ^ bit_length q"
    by (simp only: pow2_diff pow2_add pow2_nat one) simp
  have "d - 1 = int (bit_length p) - (int (bit_length q) + 1)" by (simp add: d_def)
  then have dm: "pow2 (d - 1) = 2 ^ bit_length p / (2 * 2 ^ bit_length q)"
    by (simp only: pow2_diff pow2_add pow2_nat one)
  have upper: "x < pow2 (d + 1)"
  proof -
    have "of_int p * 2 ^ bit_length q < (2 :: rat) ^ bit_length p * 2 ^ bit_length q"
      using pu by simp
    also have "\<dots> \<le> 2 ^ bit_length p * (2 * of_int q)"
      using ql by simp
    finally show ?thesis unfolding x d1 using qpos
      by (simp add: field_simps)
  qed
  have lower: "pow2 (d - 1) < x"
  proof -
    have "2 ^ bit_length p * of_int q < (2 :: rat) ^ bit_length p * 2 ^ bit_length q"
      using qu by simp
    also have "\<dots> \<le> (2 * of_int p) * 2 ^ bit_length q"
      using pl by simp
    finally show ?thesis unfolding x dm using qpos
      by (simp add: field_simps)
  qed
  show ?thesis
  proof (cases "pow2 d \<le> x")
    case True
    then have "ilog2 x = d" by (simp add: ilog2_def pq d_def Let_def)
    with True upper show ?thesis by simp
  next
    case False
    then have "ilog2 x = d - 1" by (simp add: ilog2_def pq d_def Let_def)
    with False lower show ?thesis by simp
  qed
qed

lemma round_half_even_floor: "\<lfloor>x\<rfloor> \<le> round_half_even x"
  by (simp add: round_half_even_def Let_def)

lemma round_half_even_ceiling: "round_half_even x \<le> \<lceil>x\<rceil>"
  unfolding round_half_even_def Let_def
  by (auto simp: ceiling_altdef)

lemma fl_shape:
  assumes "0 < x"
  shows "fl x = of_int (round_half_even (x / pow2 (ilog2 x - 52))) * pow2 (ilog2 x - 52)"
  using assms by (simp add: fl_def Let_def)

text \<open>A certificate for one rounding: the exponent and the rounded mantissa.\<close>

lemma fl_cert:
  assumes "0 < x" "pow2 (s + 52) \<le> x" "x < pow2 (s + 53)"
  shows "fl x = of_int (round_half_even (x / pow2 s)) * pow2 s"
proof -
  have "ilog2 x = s + 52"
    using ilog2_bounds [OF assms(1)] assms(2,3) pow2_unique [of "ilog2 x" x "s + 52"]
    by (simp add: add.commute add.left_commute)
  then show ?thesis using fl_shape [OF assms(1)] by simp
qed

lemma fl_pos:
  assumes "0 < x"
  shows "0 < fl x"
proof -
  define s where "s = ilog2 x - 52"
  have lo: "pow2 (s + 52) \<le> x" using ilog2_bounds [OF assms] by (simp add: s_def)
  have "pow2 (s + 52) = 2 ^ 52 * pow2 s"
    using pow2_add [of 52 s] pow2_nat [of 52] by (simp add: add.commute)
  with lo have "2 ^ 52 \<le> x / pow2 s" using pow2_pos [of s] by (simp add: field_simps)
  then have "(2 :: int) ^ 52 \<le> \<lfloor>x / pow2 s\<rfloor>" by (simp add: le_floor_iff)
  moreover have "(0 :: int) < 2 ^ 52" by simp
  ultimately have "0 < round_half_even (x / pow2 s)"
    using round_half_even_floor [of "x / pow2 s"] by linarith
  then show ?thesis using fl_shape [OF assms] pow2_pos [of s] by (simp add: s_def)
qed

lemma fl_le_pow2:
  assumes "0 < x" "x < pow2 k"
  shows "fl x \<le> pow2 k"
proof -
  define s where "s = ilog2 x - 52"
  have b: "pow2 (s + 52) \<le> x" "x < pow2 (s + 53)"
    using ilog2_bounds [OF assms(1)] by (simp_all add: s_def add.commute)
  have "s + 52 < k"
  proof (rule ccontr)
    assume "\<not> s + 52 < k"
    then have "pow2 k \<le> pow2 (s + 52)" by (simp add: pow2_mono)
    with b assms show False by linarith
  qed
  then have le: "pow2 (s + 53) \<le> pow2 k" by (simp add: pow2_mono)
  have split: "pow2 (s + 53) = 2 ^ 53 * pow2 s"
    using pow2_add [of 53 s] pow2_nat [of 53] by (simp add: add.commute)
  with b have "x / pow2 s \<le> 2 ^ 53" using pow2_pos [of s] by (simp add: field_simps)
  then have "\<lceil>x / pow2 s\<rceil> \<le> (2 :: int) ^ 53" by (simp add: ceiling_le_iff)
  with round_half_even_ceiling [of "x / pow2 s"]
  have "round_half_even (x / pow2 s) \<le> 2 ^ 53" by linarith
  then have "(of_int (round_half_even (x / pow2 s)) :: rat) \<le> 2 ^ 53"
    by (metis of_int_le_iff of_int_numeral of_int_power)
  then have "of_int (round_half_even (x / pow2 s)) * pow2 s \<le> 2 ^ 53 * pow2 s"
    using pow2_pos [of s] by (simp add: mult_right_mono)
  with split le fl_shape [OF assms(1)] show ?thesis by (simp add: s_def)
qed

lemma round_half_even_frac:
  assumes "0 < q"
  shows "round_half_even (of_int p / of_int q) =
           (if 2 * (p mod q) < q then p div q
            else if q < 2 * (p mod q) then p div q + 1
            else if even (p div q) then p div q else p div q + 1)"
proof -
  have f: "\<lfloor>(of_int p / of_int q :: rat)\<rfloor> = p div q"
    by (simp add: floor_divide_of_int_eq)
  have "(of_int p :: rat) = of_int (p div q) * of_int q + of_int (p mod q)"
    by (metis div_mult_mod_eq of_int_add of_int_mult)
  then have r: "(of_int p / of_int q :: rat) - of_int (p div q) = of_int (p mod q) / of_int q"
    using assms by (simp add: field_simps)
  have lt: "(of_int (p mod q) / of_int q :: rat) < 1 / 2 \<longleftrightarrow> 2 * (p mod q) < q"
  proof -
    have "(of_int (p mod q) / of_int q :: rat) < 1 / 2 \<longleftrightarrow>
          (of_int (2 * (p mod q)) :: rat) < of_int q"
      using assms by (simp add: field_simps)
    then show ?thesis by (simp only: of_int_less_iff)
  qed
  have gt: "(1 / 2 :: rat) < of_int (p mod q) / of_int q \<longleftrightarrow> q < 2 * (p mod q)"
  proof -
    have "(1 / 2 :: rat) < of_int (p mod q) / of_int q \<longleftrightarrow>
          (of_int q :: rat) < of_int (2 * (p mod q))"
      using assms by (simp add: field_simps)
    then show ?thesis by (simp only: of_int_less_iff)
  qed
  show ?thesis
    unfolding round_half_even_def Let_def f r lt gt by simp
qed

section \<open>Facts about decimal printing\<close>

lemma digit_chars:
  "digit_char 0 = CHR ''0''" "digit_char 1 = CHR ''1''" "digit_char 2 = CHR ''2''"
  "digit_char 3 = CHR ''3''" "digit_char 4 = CHR ''4''" "digit_char 5 = CHR ''5''"
  "digit_char 6 = CHR ''6''" "digit_char 7 = CHR ''7''" "digit_char 8 = CHR ''8''"
  "digit_char 9 = CHR ''9''" "digit_char (Suc 0) = CHR ''1''"
  by (simp_all add: digit_char_def)

lemma digit_char_digit: "d < 10 \<Longrightarrow> digit_char d \<in> decimal_digits"
proof -
  assume "d < 10"
  then have "d = 0 \<or> d = 1 \<or> d = 2 \<or> d = 3 \<or> d = 4 \<or> d = 5 \<or> d = 6
    \<or> d = 7 \<or> d = 8 \<or> d = 9" by arith
  then show ?thesis unfolding decimal_digits_def using digit_chars by auto
qed

lemma str_nat_digits: "set (str_nat n) \<subseteq> decimal_digits"
proof (induction n rule: str_nat.induct)
  case (1 n)
  show ?case
  proof (cases "n < 10")
    case True
    then have "str_nat n = [digit_char n]" by (simp add: str_nat.simps)
    with True show ?thesis using digit_char_digit by simp
  next
    case False
    then have eq: "str_nat n = str_nat (n div 10) @ [digit_char (n mod 10)]"
      by (subst str_nat.simps) simp
    have "digit_char (n mod 10) \<in> decimal_digits" by (rule digit_char_digit) simp
    moreover have "set (str_nat (n div 10)) \<subseteq> decimal_digits" using False "1.IH" by simp
    ultimately show ?thesis unfolding eq by simp
  qed
qed

lemma str_nat_one_digit: "n < 10 \<Longrightarrow> str_nat n = [digit_char n]"
  by (simp add: str_nat.simps)

section \<open>Properties of the markup sanitizer\<close>










section \<open>Properties of the table formatter\<close>

lemma dict_to_table_success_width:
  assumes "dict_to_table d titles width = Inr ls"
  shows "d \<noteq> [] \<or> (\<exists>n. width = Some n \<and> n \<noteq> 0)"
proof (rule ccontr)
  assume neg: "\<not> (d \<noteq> [] \<or> (\<exists>n. width = Some n \<and> n \<noteq> 0))"
  then have d: "d = []" and w: "width = None \<or> width = Some 0"
    by (cases width; auto)+
  from d w have "dict_to_table d titles width = Inl ValueError"
    by (auto simp: dict_to_table_def default_width_def)
  with assms show False by simp
qed

text \<open>
  Claim C10. With an empty mapping and no explicit width, \<open>dict_to_table\<close> raises (the
  \<open>max\<close> over the empty key sequence is a ValueError) whatever the titles are, instead
  of returning lines; and whenever it does return lines, the mapping was non-empty or an
  explicit width was supplied.
\<close>

theorem dict_to_table_empty_raises:
  "dict_to_table [] titles None = Inl ValueError \<and>
   (dict_to_table d titles width = Inr ls \<longrightarrow> d \<noteq> [] \<or> width \<noteq> None)"
proof
  show "dict_to_table [] titles None = Inl ValueError"
    by (simp add: dict_to_table_def default_width_def)
  show "dict_to_table d titles width = Inr ls \<longrightarrow> d \<noteq> [] \<or> width \<noteq> None"
    using dict_to_table_success_width by blast
qed

theorem dict_to_table_empty_raises_witness:
  "dict_to_table [] None None = Inl ValueError \<and>
   dict_to_table [(''A'', Atom (AInt 1)), (''BB'', Atom ANone)] None None
     = Inr [''Key  | Value'', ''--------'', ''A    | 1   '', ''BB   | None''] \<and>
   [(''A'', Atom (AInt 1)), (''BB'', Atom ANone)] \<noteq> []"
proof -
  have run: "dict_to_table [(''A'', Atom (AInt 1)), (''BB'', Atom ANone)] None None
     = Inr [''Key  | Value'', ''--------'', ''A    | 1   '', ''BB   | None'']"
    by code_simp
  from dict_to_table_empty_raises
    [of None "[(''A'', Atom (AInt 1)), (''BB'', Atom ANone)]" None
        "[''Key  | Value'', ''--------'', ''A    | 1   '', ''BB   | None'']"]
  show ?thesis using run by simp
qed

section \<open>Properties of the submission state-change endpoint\<close>

text \<open>The five tests of \<open>TestSubmissionRemove\<close>, run on the model.\<close>

lemma test_remove_no_params:
  "submission_remove (create_submission 3 False False) None
     = (HTTP_200_OK, create_submission 3 True False)"
  by (simp add: submission_remove_def create_submission_def)

lemma test_remove_no_change:
  "submission_remove (create_submission 3 True False) None
     = (HTTP_200_OK, create_submission 3 True False)"
  by (simp add: submission_remove_def create_submission_def)

lemma test_remove_param_false:
  "submission_remove (create_submission 3 True False) (Some False)
     = (HTTP_200_OK, create_submission 3 False False)"
  by (simp add: submission_remove_def create_submission_def)

lemma test_remove_param_true:
  "submission_remove (create_submission 3 False False) (Some True)
     = (HTTP_200_OK, create_submission 3 True False)"
  by (simp add: submission_remove_def create_submission_def)

lemma test_remove_reverting_approval:
  "submission_remove (create_submission 3 False True) None
     = (HTTP_200_OK, create_submission 3 True False)"
  by (simp add: submission_remove_def create_submission_def)

text \<open>
  Claim C8. A PATCH without \<open>removed_from_queue\<close> behaves as one asking for removal and
  answers 200; removing an approved submission that is in the queue clears \<open>approved\<close>
  in the same update that sets \<open>removed_from_queue\<close>; and when the requested state is
  the current one the submission is returned unchanged, still with status 200.
\<close>

theorem submission_remove_contract:
  "submission_remove s None = submission_remove s (Some True)
   \<and> fst (submission_remove s body) = HTTP_200_OK
   \<and> (approved s \<and> \<not> removed_from_queue s \<longrightarrow>
        snd (submission_remove s None) = s\<lparr>removed_from_queue := True, approved := False\<rparr>)
   \<and> (removed_from_queue s = requested \<longrightarrow>
        submission_remove s (Some requested) = (HTTP_200_OK, s))
   \<and> (removed_from_queue s \<longrightarrow> submission_remove s None = (HTTP_200_OK, s))"
  by (cases body) (simp_all add: submission_remove_def Let_def)

theorem submission_remove_contract_witness:
  "approved (create_submission 3 False True)
   \<and> \<not> removed_from_queue (create_submission 3 False True)
   \<and> snd (submission_remove (create_submission 3 False True) None)
        = create_submission 3 True False
   \<and> removed_from_queue (create_submission 3 True False) = True
   \<and> submission_remove (create_submission 3 True False) (Some True)
        = (HTTP_200_OK, create_submission 3 True False)
   \<and> submission_remove (create_submission 3 True False) None
        = (HTTP_200_OK, create_submission 3 True False)"
proof -
  have a: "approved (create_submission 3 False True)
    \<and> \<not> removed_from_queue (create_submission 3 False True)"
    by (simp add: create_submission_def)
  have b: "removed_from_queue (create_submission 3 True False) = True"
    "removed_from_queue (create_submission 3 True False)"
    by (simp_all add: create_submission_def)
  have upd: "(create_submission 3 False True)\<lparr>removed_from_queue := True, approved := False\<rparr>
    = create_submission 3 True False"
    by (simp add: create_submission_def)
  from submission_remove_contract [of "create_submission 3 False True" None True] a
  have c: "snd (submission_remove (create_submission 3 False True) None)
        = create_submission 3 True False"
    unfolding upd by blast
  from submission_remove_contract [of "create_submission 3 True False" None True] b
  have d: "submission_remove (create_submission 3 True False) (Some True)
        = (HTTP_200_OK, create_submission 3 True False)"
    "submission_remove (create_submission 3 True False) None
        = (HTTP_200_OK, create_submission 3 True False)"
    by blast+
  from a b c d show ?thesis by blast
qed

section \<open>Properties of the relative-time formatter\<close>

lemma fl_small:
  assumes "0 < x" "x < 1 / 2"
  shows "0 < fl x \<and> fl x \<le> 1 / 2"
  using fl_pos [OF assms(1)] fl_le_pow2 [of x "-1"] assms by (simp add: pow2_def)

lemma fdiv_small:
  assumes "0 < x" "2 * x < c"
  shows "0 < fdiv x c \<and> fdiv x c \<le> 1 / 2"
proof -
  from assms have c: "0 < c" by simp
  with assms have "0 < x / c" by simp
  moreover have "x / c < 1 / 2" using assms c by (simp add: field_simps)
  ultimately show ?thesis unfolding fdiv_def by (rule fl_small)
qed

lemma fl_1: "fl 1 = 1"
  using fl_cert [of 1 "-52"] by (simp add: pow2_def round_half_even_def Let_def)
lemma fl_3: "fl 3 = 3"
  using fl_cert [of 3 "-51"] by (simp add: pow2_def round_half_even_def Let_def)
lemma fl_24: "fl 24 = 24"
  using fl_cert [of 24 "-48"] by (simp add: pow2_def round_half_even_def Let_def)
lemma fl_60: "fl 60 = 60"
  using fl_cert [of 60 "-47"] by (simp add: pow2_def round_half_even_def Let_def)
lemma fl_1440: "fl 1440 = 1440"
  using fl_cert [of 1440 "-42"] by (simp add: pow2_def round_half_even_def Let_def)
lemma fl_3600: "fl 3600 = 3600"
  using fl_cert [of 3600 "-41"] by (simp add: pow2_def round_half_even_def Let_def)
lemma fl_3750: "fl 3750 = 3750"
  using fl_cert [of 3750 "-41"] by (simp add: pow2_def round_half_even_def Let_def)
lemma fl_86400: "fl 86400 = 86400"
  using fl_cert [of 86400 "-36"] by (simp add: pow2_def round_half_even_def Let_def)
lemma fl_125_2: "fl (125 / 2) = 125 / 2"
  using fl_cert [of "125 / 2" "-47"] by (simp add: pow2_def round_half_even_def Let_def)
lemma fl_25_24: "fl (25 / 24) = 4691249611844267 / 4503599627370496"
proof -
  have "round_half_even (of_int 14073748835532800 / of_int 3) = 4691249611844267"
    by (subst round_half_even_frac) simp_all
  then have r: "round_half_even (25 / 24 / pow2 (- 52)) = 4691249611844267"
    by (simp add: pow2_def)
  show ?thesis using fl_cert [of "25 / 24" "- 52"] unfolding r by (simp add: pow2_def)
qed

lemma format_fixed_0_digits: "set (format_fixed 0 v) \<subseteq> decimal_digits"
  unfolding format_fixed_def Let_def by (simp add: str_nat_digits)

lemma format_fixed_1_shape:
  "\<exists>ds d. format_fixed 1 v = ds @ ''.'' @ [d] \<and> d \<in> decimal_digits \<and> set ds \<subseteq> decimal_digits"
proof -
  define n where "n = nat (round_half_even (v * 10 ^ 1))"
  have "n mod 10 < 10" by simp
  then have fp: "str_nat (n mod 10) = [digit_char (n mod 10)]" by (rule str_nat_one_digit)
  have eq: "format_fixed 1 v = str_nat (n div 10) @ ''.'' @ [digit_char (n mod 10)]"
    using fp by (simp add: format_fixed_def Let_def n_def)
  have "digit_char (n mod 10) \<in> decimal_digits" by (rule digit_char_digit) simp
  with eq str_nat_digits [of "n div 10"] show ?thesis by blast
qed

lemma format_fixed_1_one: "format_fixed 1 1 = ''1.0''"
  by (simp add: format_fixed_def round_half_even_def Let_def str_nat.simps digit_chars)

lemma format_fixed_1_25_24:
  "format_fixed 1 (4691249611844267 / 4503599627370496) = ''1.0''"
proof -
  have "round_half_even (of_int 23456248059221335 / of_int 2251799813685248) = 10"
    by (subst round_half_even_frac) simp_all
  then have "round_half_even (4691249611844267 / 4503599627370496 * 10 ^ 1) = 10"
    by simp
  then show ?thesis
    by (simp add: format_fixed_def Let_def str_nat.simps digit_char_def)
qed

lemma major_unit_find:
  "major_unit delta =
     (case find (\<lambda>(u, v). v \<ge> 1) (spec_unit_order delta) of
        Some (u, v) \<Rightarrow> (v, u)
      | None \<Rightarrow> if seconds_of delta > 5 then (seconds_of delta, ''sec'')
                else (fdiv (seconds_of delta) 1000, ''ms''))"
  by (simp add: major_unit_def spec_unit_order_def)

text \<open>Once the day count is at most one half, no larger unit reaches 1.\<close>

lemma below_day:
  assumes "0 < days_of delta" "days_of delta \<le> 1"
  shows "weeks_of delta < 1 \<and> months_of delta < 1 \<and> years_of delta < 1"
proof -
  have "0 < fdiv (days_of delta) 7 \<and> fdiv (days_of delta) 7 \<le> 1 / 2"
    using assms by (intro fdiv_small) simp_all
  moreover have "0 < fdiv (days_of delta) 30 \<and> fdiv (days_of delta) 30 \<le> 1 / 2"
    using assms by (intro fdiv_small) simp_all
  moreover have "0 < fdiv (days_of delta) 365 \<and> fdiv (days_of delta) 365 \<le> 1 / 2"
    using assms by (intro fdiv_small) simp_all
  ultimately show ?thesis
    by (simp add: weeks_of_def months_of_def years_of_def)
qed

lemma hour_seconds: "seconds_of 3600000000 = 3600"
  by (simp add: seconds_of_def total_seconds_def fdiv_def fl_3600)
lemma hour_minutes: "minutes_of 3600000000 = 60"
  by (simp add: minutes_of_def hour_seconds fdiv_def fl_60)
lemma hour_hours: "hours_of 3600000000 = 1"
  by (simp add: hours_of_def hour_minutes fdiv_def fl_1)
lemma hour_days: "0 < days_of 3600000000 \<and> days_of 3600000000 \<le> 1 / 2"
  using fdiv_small [of 1 24] by (simp add: days_of_def hour_hours)

lemma hour_major_unit: "major_unit 3600000000 = (1, ''hour'')"
  using hour_days below_day [of 3600000000]
  by (simp add: major_unit_def hour_hours)

lemma hour_relative_duration: "relative_duration 3600000000 = ''1.0 hour''"
  unfolding relative_duration_def hour_major_unit duration_str_def Let_def fst_conv snd_conv
    format_fixed_1_one by simp

lemma day_seconds: "seconds_of 86400000000 = 86400"
  by (simp add: seconds_of_def total_seconds_def fdiv_def fl_86400)
lemma day_minutes: "minutes_of 86400000000 = 1440"
  by (simp add: minutes_of_def day_seconds fdiv_def fl_1440)
lemma day_hours: "hours_of 86400000000 = 24"
  by (simp add: hours_of_def day_minutes fdiv_def fl_24)
lemma day_days: "days_of 86400000000 = 1"
  by (simp add: days_of_def day_hours fdiv_def fl_1)
lemma day_major_unit: "major_unit 86400000000 = (1, ''day'')"
  using below_day [of 86400000000]
  by (simp add: major_unit_def day_days)
lemma day_relative_duration: "relative_duration 86400000000 = ''1.0 day''"
  unfolding relative_duration_def day_major_unit duration_str_def Let_def fst_conv snd_conv
    format_fixed_1_one by simp

lemma h3750_seconds: "seconds_of 3750000000 = 3750"
  by (simp add: seconds_of_def total_seconds_def fdiv_def fl_3750)
lemma h3750_minutes: "minutes_of 3750000000 = 125 / 2"
  by (simp add: minutes_of_def h3750_seconds fdiv_def fl_125_2)
lemma h3750_hours: "hours_of 3750000000 = 4691249611844267 / 4503599627370496"
  by (simp add: hours_of_def h3750_minutes fdiv_def fl_25_24)
lemma h3750_days: "0 < days_of 3750000000 \<and> days_of 3750000000 \<le> 1 / 2"
  using fdiv_small [of "4691249611844267 / 4503599627370496" 24]
  by (simp add: days_of_def h3750_hours)
lemma h3750_major_unit:
  "major_unit 3750000000 = (4691249611844267 / 4503599627370496, ''hour'')"
  using h3750_days below_day [of 3750000000]
  by (simp add: major_unit_def h3750_hours)
lemma h3750_relative_duration: "relative_duration 3750000000 = ''1.0 hours''"
  unfolding relative_duration_def h3750_major_unit duration_str_def Let_def fst_conv snd_conv
    format_fixed_1_25_24 by simp

lemma s3_seconds: "seconds_of 3000000 = 3"
  by (simp add: seconds_of_def total_seconds_def fdiv_def fl_3)
lemma s3_minutes: "0 < minutes_of 3000000 \<and> minutes_of 3000000 \<le> 1 / 2"
  using fl_small [of "3 / 60"] by (simp add: minutes_of_def s3_seconds fdiv_def)
lemma s3_hours: "0 < hours_of 3000000 \<and> hours_of 3000000 \<le> 1 / 2"
  using s3_minutes fdiv_small [of "minutes_of 3000000" 60] by (simp add: hours_of_def)
lemma s3_days: "0 < days_of 3000000 \<and> days_of 3000000 \<le> 1 / 2"
  using s3_hours fdiv_small [of "hours_of 3000000" 24] by (simp add: days_of_def)
lemma s3_major_unit: "snd (major_unit 3000000) = ''ms''"
  using s3_minutes s3_hours s3_days below_day [of 3000000]
  by (simp add: major_unit_def s3_seconds)

lemma duration_str_ms:
  "duration_str (v, ''ms'') = format_fixed 0 v @ '' ms''"
  by (simp add: duration_str_def)

lemma duration_str_other:
  "u \<noteq> ''ms'' \<Longrightarrow>
   duration_str (v, u) = format_fixed 1 v @ '' '' @ u @ (if v = 1 then [] else ''s'')"
  by (simp add: duration_str_def)

lemma hour_format_time:
  "format_time \<lparr>instant = 3600000000, date_iso = ''1970-01-01''\<rparr>
     (Some \<lparr>instant = 0, date_iso = ''1970-01-01''\<rparr>) = Some ''1970-01-01 (1.0 hour ago)''"
  by (simp add: format_time_def hour_relative_duration)

lemma day_format_time:
  "format_time \<lparr>instant = 86400000000, date_iso = ''1970-01-02''\<rparr>
     (Some \<lparr>instant = 0, date_iso = ''1970-01-01''\<rparr>) = Some ''1970-01-01 (1.0 day ago)''"
  by (simp add: format_time_def day_relative_duration)

text \<open>
  Claim C5, as stated, fails: a delta of exactly 3600 seconds is formatted with the
  singular unit, \<open>1.0 hour ago\<close>, not \<open>1.0 hours ago\<close>; and the plural is decided
  by the value before rounding, so 3750 seconds (1.0416... hours, printed \<open>1.0\<close>) give
  \<open>1.0 hours\<close>.
\<close>

theorem relative_duration_hour_counterexample:
  "format_time \<lparr>instant = 3600000000, date_iso = ''1970-01-01''\<rparr>
     (Some \<lparr>instant = 0, date_iso = ''1970-01-01''\<rparr>) \<noteq> Some ''1970-01-01 (1.0 hours ago)''
   \<and> relative_duration 3600000000 = ''1.0 hour''
   \<and> fst (major_unit 3750000000) \<noteq> 1
   \<and> format_fixed 1 (fst (major_unit 3750000000)) = ''1.0''
   \<and> relative_duration 3750000000 = ''1.0 hours''"
  by (simp add: hour_format_time hour_relative_duration h3750_relative_duration
      h3750_major_unit format_fixed_1_25_24 del: One_nat_def)

text \<open>
  Claim C5, amended. For every delta the formatter shows the first unit, in the order years
  (days/365), months (days/30), weeks (days/7), days, hours, minutes, whose value is at
  least 1; failing that, seconds when the delta exceeds 5 seconds, and the millisecond
  branch otherwise. The millisecond branch prints digits only (no decimal point) followed
  by \<open>ms\<close>; every other unit is printed with exactly one decimal digit and gets a
  trailing \<open>s\<close> unless the value before rounding is exactly 1. A delta of 3600 seconds is
  \<open>1.0 hour ago\<close> and a delta of one day is \<open>1.0 day ago\<close>.
\<close>

theorem relative_duration_units:
  "major_unit delta =
     (case find (\<lambda>(u, v). v \<ge> 1) (spec_unit_order delta) of
        Some (u, v) \<Rightarrow> (v, u)
      | None \<Rightarrow> if seconds_of delta > 5 then (seconds_of delta, ''sec'')
                else (fdiv (seconds_of delta) 1000, ''ms''))
   \<and> (snd (major_unit delta) = ''ms'' \<longrightarrow>
        (\<exists>ds. relative_duration delta = ds @ '' ms'' \<and> set ds \<subseteq> decimal_digits))
   \<and> (snd (major_unit delta) \<noteq> ''ms'' \<longrightarrow>
        (\<exists>ds d. relative_duration delta =
            ds @ ''.'' @ [d] @ '' '' @ snd (major_unit delta)
              @ (if fst (major_unit delta) = 1 then [] else ''s'')
          \<and> d \<in> decimal_digits \<and> set ds \<subseteq> decimal_digits))
   \<and> format_time \<lparr>instant = 3600000000, date_iso = ''1970-01-01''\<rparr>
        (Some \<lparr>instant = 0, date_iso = ''1970-01-01''\<rparr>) = Some ''1970-01-01 (1.0 hour ago)''
   \<and> format_time \<lparr>instant = 86400000000, date_iso = ''1970-01-02''\<rparr>
        (Some \<lparr>instant = 0, date_iso = ''1970-01-01''\<rparr>) = Some ''1970-01-01 (1.0 day ago)''"
proof (intro conjI impI)
  show "major_unit delta =
     (case find (\<lambda>(u, v). v \<ge> 1) (spec_unit_order delta) of
        Some (u, v) \<Rightarrow> (v, u)
      | None \<Rightarrow> if seconds_of delta > 5 then (seconds_of delta, ''sec'')
                else (fdiv (seconds_of delta) 1000, ''ms''))"
    by (rule major_unit_find)
next
  assume ms: "snd (major_unit delta) = ''ms''"
  obtain v u where vu: "major_unit delta = (v, u)" by (cases "major_unit delta")
  with ms have "relative_duration delta = format_fixed 0 v @ '' ms''"
    by (simp add: relative_duration_def duration_str_ms)
  with format_fixed_0_digits [of v]
  show "\<exists>ds. relative_duration delta = ds @ '' ms'' \<and> set ds \<subseteq> decimal_digits"
    by blast
next
  assume nms: "snd (major_unit delta) \<noteq> ''ms''"
  obtain v u where vu: "major_unit delta = (v, u)" by (cases "major_unit delta")
  with nms have u: "u \<noteq> ''ms''" by simp
  obtain ds d where shape: "format_fixed 1 v = ds @ ''.'' @ [d]"
    "d \<in> decimal_digits" "set ds \<subseteq> decimal_digits"
    using format_fixed_1_shape [of v] by blast
  have "relative_duration delta = (ds @ ''.'' @ [d]) @ '' '' @ u @ (if v = 1 then [] else ''s'')"
    unfolding relative_duration_def vu duration_str_other [OF u] shape(1) ..
  then have "relative_duration delta =
      ds @ ''.'' @ [d] @ '' '' @ snd (major_unit delta)
        @ (if fst (major_unit delta) = 1 then [] else ''s'')"
    by (simp add: vu)
  with shape(2,3)
  show "\<exists>ds d. relative_duration delta =
            ds @ ''.'' @ [d] @ '' '' @ snd (major_unit delta)
              @ (if fst (major_unit delta) = 1 then [] else ''s'')
          \<and> d \<in> decimal_digits \<and> set ds \<subseteq> decimal_digits"
    by blast
next
  show "format_time \<lparr>instant = 3600000000, date_iso = ''1970-01-01''\<rparr>
        (Some \<lparr>instant = 0, date_iso = ''1970-01-01''\<rparr>) = Some ''1970-01-01 (1.0 hour ago)''"
    by (rule hour_format_time)
next
  show "format_time \<lparr>instant = 86400000000, date_iso = ''1970-01-02''\<rparr>
        (Some \<lparr>instant = 0, date_iso = ''1970-01-01''\<rparr>) = Some ''1970-01-01 (1.0 day ago)''"
    by (rule day_format_time)
qed

theorem relative_duration_units_witness:
  "snd (major_unit 3000000) = ''ms''
   \<and> (\<exists>ds. relative_duration 3000000 = ds @ '' ms'' \<and> set ds \<subseteq> decimal_digits)
   \<and> snd (major_unit 3600000000) \<noteq> ''ms''
   \<and> (\<exists>ds d. relative_duration 3600000000 = ds @ ''.'' @ [d] @ '' hour''
          \<and> d \<in> decimal_digits \<and> set ds \<subseteq> decimal_digits)"
proof -
  have a: "snd (major_unit 3000000) = ''ms''" by (rule s3_major_unit)
  have b: "snd (major_unit 3600000000) \<noteq> ''ms''" by (simp add: hour_major_unit)
  from relative_duration_units [of 3000000] a
  have c: "\<exists>ds. relative_duration 3000000 = ds @ '' ms'' \<and> set ds \<subseteq> decimal_digits"
    by blast
  from relative_duration_units [of 3600000000] b
  have "\<exists>ds d. relative_duration 3600000000 =
            ds @ ''.'' @ [d] @ '' '' @ snd (major_unit 3600000000)
              @ (if fst (major_unit 3600000000) = 1 then [] else ''s'')
          \<and> d \<in> decimal_digits \<and> set ds \<subseteq> decimal_digits"
    by blast
  then have d: "\<exists>ds d. relative_duration 3600000000 = ds @ ''.'' @ [d] @ '' hour''
          \<and> d \<in> decimal_digits \<and> set ds \<subseteq> decimal_digits"
    by (simp add: hour_major_unit)
  from a b c d show ?thesis by blast
qed




end
